theory Spec2Isabelle
  imports Complex_Main "HOL-Library.Sublist"
begin

section \<open>Python exceptions and HTTP errors\<close>

text \<open>
  An exception is its class, as far as the handlers of the two servers tell classes
  apart (\<^verbatim>\<open>except ValueError\<close> before \<^verbatim>\<open>except Exception\<close>), and the text that
  \<^verbatim>\<open>str(e)\<close> yields. The type \<open>exn\<close> holds the exceptions derived from
  \<^verbatim>\<open>Exception\<close>; what the background task of the RAG server can meet beyond them is
  added there, as the type \<open>raised\<close>. An \<^verbatim>\<open>HTTPException\<close> is its status code and
  its detail.
\<close>

datatype exn_class =
  ValueError | RuntimeError | AttributeError | KeyError | OSError | OtherException

datatype exn = Exn (exn_class: exn_class) (exn_text: string)

datatype http_error = HTTPException (status_code: nat) (detail: string)

section \<open>ColQwen2 embedding server (colqwen2/docker/server.py)\<close>

type_synonym rgb_image = string

record EmbedRequest =
  image :: string

record EmbedBatchRequest =
  images :: "string list"

record EmbedResponse =
  embedding :: "real list"
  embed_dim :: int

record EmbedBatchResponse =
  embeddings :: "real list list"
  count :: int
  dim :: int

record HealthResponse =
  health_status :: string
  gpu_available :: bool
  model_loaded :: bool
  model_name :: string
  health_device :: string

text \<open>
  The module globals \<^verbatim>\<open>model\<close>, \<^verbatim>\<open>processor\<close> and \<^verbatim>\<open>device\<close>; \<open>None\<close> is
  Python's \<^verbatim>\<open>None\<close>. The handles themselves belong to the model library.
\<close>

record ('m, 'p) globals =
  model :: "'m option"
  processor :: "'p option"
  device :: "string option"

text \<open>
  The libraries the server calls. \<open>open_image\<close> is
  \<^verbatim>\<open>Image.open(io.BytesIO(base64.b64decode(s))).convert("RGB")\<close>, and \<open>run_model\<close>
  is the body of \<^verbatim>\<open>embed_image\<close> after its guard: \<^verbatim>\<open>process_images\<close>, the forward
  pass and the pooling of the multi-vector output. Either may raise an exception derived
  from \<^verbatim>\<open>Exception\<close>.
\<close>

record ('m, 'p) libs =
  open_image :: "string \<Rightarrow> exn + rgb_image"
  run_model :: "'m \<Rightarrow> 'p \<Rightarrow> string option \<Rightarrow> rgb_image \<Rightarrow> exn + real list"

text \<open>
  The calls made to the libraries are logged in order: an image has been processed when
  the log holds a call for it.
\<close>

datatype lib_call = OpenImage string | RunModel rgb_image

definition decode_image ::
  "('m, 'p) libs \<Rightarrow> string \<Rightarrow> lib_call list \<Rightarrow> (exn + rgb_image) \<times> lib_call list" where
  "decode_image L base64_str tr =
     (case open_image L base64_str of
        Inr img \<Rightarrow> (Inr img, tr @ [OpenImage base64_str])
      | Inl e \<Rightarrow>
          (Inl (Exn ValueError (''Invalid image data: '' @ exn_text e)),
           tr @ [OpenImage base64_str]))"

definition embed_image ::
  "('m, 'p) libs \<Rightarrow> ('m, 'p) globals \<Rightarrow> rgb_image \<Rightarrow> lib_call list
     \<Rightarrow> (exn + real list) \<times> lib_call list" where
  "embed_image L g img tr =
     (case model g of
        None \<Rightarrow> (Inl (Exn RuntimeError ''Model not loaded''), tr)
      | Some m \<Rightarrow>
          (case processor g of
             None \<Rightarrow> (Inl (Exn RuntimeError ''Model not loaded''), tr)
           | Some p \<Rightarrow> (run_model L m p (device g) img, tr @ [RunModel img])))"

definition health_check :: "string \<Rightarrow> bool \<Rightarrow> ('m, 'p) globals \<Rightarrow> HealthResponse" where
  "health_check MODEL_NAME cuda g =
     (let is_loaded = (model g \<noteq> None \<and> processor g \<noteq> None) in
      \<lparr>health_status = (if is_loaded then ''healthy'' else ''degraded''),
       gpu_available = cuda,
       model_loaded = is_loaded,
       model_name = MODEL_NAME,
       health_device = (case device g of Some d \<Rightarrow> d | None \<Rightarrow> ''none'')\<rparr>)"

text \<open>
  The two handlers of both endpoints: \<^verbatim>\<open>except ValueError\<close> answers 400,
  \<^verbatim>\<open>except Exception\<close> answers 500, each with \<^verbatim>\<open>str(e)\<close> as detail.
\<close>

definition handle_exn :: "exn \<Rightarrow> http_error" where
  "handle_exn e =
     (if exn_class e = ValueError then HTTPException 400 (exn_text e)
      else HTTPException 500 (exn_text e))"

definition embed ::
  "('m, 'p) libs \<Rightarrow> ('m, 'p) globals \<Rightarrow> EmbedRequest \<Rightarrow> lib_call list
     \<Rightarrow> (http_error + EmbedResponse) \<times> lib_call list" where
  "embed L g request tr =
     (if model g = None then (Inl (HTTPException 503 ''Model not loaded''), tr)
      else
        (case decode_image L (image request) tr of
           (Inl e, tr1) \<Rightarrow> (Inl (handle_exn e), tr1)
         | (Inr img, tr1) \<Rightarrow>
             (case embed_image L g img tr1 of
                (Inl e, tr2) \<Rightarrow> (Inl (handle_exn e), tr2)
              | (Inr v, tr2) \<Rightarrow>
                  (Inr \<lparr>embedding = v, embed_dim = int (length v)\<rparr>, tr2))))"

text \<open>The \<^verbatim>\<open>for img_b64 in request.images\<close> loop; an exception leaves it at once.\<close>

fun embed_batch_loop ::
  "('m, 'p) libs \<Rightarrow> ('m, 'p) globals \<Rightarrow> string list \<Rightarrow> real list list \<Rightarrow> lib_call list
     \<Rightarrow> (exn + real list list) \<times> lib_call list" where
  "embed_batch_loop L g [] embs tr = (Inr embs, tr)"
| "embed_batch_loop L g (img_b64 # rest) embs tr =
     (case decode_image L img_b64 tr of
        (Inl e, tr1) \<Rightarrow> (Inl e, tr1)
      | (Inr img, tr1) \<Rightarrow>
          (case embed_image L g img tr1 of
             (Inl e, tr2) \<Rightarrow> (Inl e, tr2)
           | (Inr v, tr2) \<Rightarrow> embed_batch_loop L g rest (embs @ [v]) tr2))"

definition embed_batch ::
  "('m, 'p) libs \<Rightarrow> ('m, 'p) globals \<Rightarrow> EmbedBatchRequest \<Rightarrow> lib_call list
     \<Rightarrow> (http_error + EmbedBatchResponse) \<times> lib_call list" where
  "embed_batch L g request tr =
     (if model g = None then (Inl (HTTPException 503 ''Model not loaded''), tr)
      else
        (case embed_batch_loop L g (images request) [] tr of
           (Inl e, tr1) \<Rightarrow> (Inl (handle_exn e), tr1)
         | (Inr embs, tr1) \<Rightarrow>
             (Inr \<lparr>embeddings = embs,
                   count = int (length embs),
                   dim = (if embs \<noteq> [] then int (length (embs ! 0)) else 0)\<rparr>,
              tr1)))"

subsection \<open>Notions used to state the properties of the batch loop\<close>

text \<open>
  \<open>embeds_to\<close>: the image string decodes and the model returns the vector for the decoded
  image. \<open>embeddable\<close>: it decodes and the model returns some vector. \<open>image_calls\<close>:
  the library calls that processing one image makes when both handles are loaded.
\<close>

definition embeds_to ::
  "('m, 'p) libs \<Rightarrow> 'm \<Rightarrow> 'p \<Rightarrow> string option \<Rightarrow> string \<Rightarrow> real list \<Rightarrow> bool" where
  "embeds_to L m p d b v =
     (case open_image L b of
        Inl _ \<Rightarrow> False
      | Inr img \<Rightarrow> run_model L m p d img = Inr v)"

definition embeddable ::
  "('m, 'p) libs \<Rightarrow> 'm \<Rightarrow> 'p \<Rightarrow> string option \<Rightarrow> string \<Rightarrow> bool" where
  "embeddable L m p d b =
     (case open_image L b of
        Inl _ \<Rightarrow> False
      | Inr img \<Rightarrow> \<not> isl (run_model L m p d img))"

definition image_calls :: "('m, 'p) libs \<Rightarrow> string \<Rightarrow> lib_call list" where
  "image_calls L b =
     (case open_image L b of
        Inl _ \<Rightarrow> [OpenImage b]
      | Inr img \<Rightarrow> [OpenImage b, RunModel img])"

section \<open>RAG-Anything server (rag-anything/docker/server.py)\<close>

subsection \<open>Configuration and the file system\<close>

text \<open>
  A path is the list of its components from the root. The disk maps a path to what is
  there. \<open>rmtree\<close> is \<^verbatim>\<open>shutil.rmtree\<close>, taken on its successful path.
\<close>

type_synonym path = "string list"

datatype node = Dir | File string

type_synonym disk = "path \<Rightarrow> node option"

record Config =
  embedding_model :: string
  working_dir :: path
  documents_dir :: path

definition path_exists :: "disk \<Rightarrow> path \<Rightarrow> bool" where
  "path_exists d p = (d p \<noteq> None)"

text \<open>
  \<^verbatim>\<open>mkdir(parents=True, exist_ok=True)\<close>: raises when the path or one of its ancestors is
  a regular file, and otherwise makes every missing directory on the way.
\<close>

definition is_file :: "node option \<Rightarrow> bool" where
  "is_file n = (case n of Some (File _) \<Rightarrow> True | _ \<Rightarrow> False)"

definition mkdir_parents :: "path \<Rightarrow> disk \<Rightarrow> exn + disk" where
  "mkdir_parents p d =
     (if list_ex (\<lambda>q. is_file (d q)) (prefixes p)
      then Inl (Exn OSError ''File exists'')
      else Inr (\<lambda>q. if prefix q p \<and> d q = None then Some Dir else d q))"

definition write_file :: "path \<Rightarrow> string \<Rightarrow> disk \<Rightarrow> disk" where
  "write_file p content d = d(p \<mapsto> File content)"

definition rmtree :: "path \<Rightarrow> disk \<Rightarrow> disk" where
  "rmtree p d = (\<lambda>q. if prefix p q then None else d q)"

text \<open>
  \<^verbatim>\<open>Path(d) / name\<close>. A document identifier is one component, so the join is
  \<open>d @ [doc_id]\<close>. A file name comes from the client and may hold separators: \<open>joinpath\<close>
  splits it at \<^verbatim>\<open>/\<close>, drops empty and \<^verbatim>\<open>.\<close> components, keeps \<^verbatim>\<open>..\<close>, and an absolute
  name replaces the directory.
\<close>

fun split_slash :: "string \<Rightarrow> string list" where
  "split_slash [] = [[]]"
| "split_slash (c # cs) =
     (if c = CHR ''/'' then [] # split_slash cs
      else (c # hd (split_slash cs)) # tl (split_slash cs))"

definition parts :: "string \<Rightarrow> path" where
  "parts name = filter (\<lambda>w. w \<noteq> [] \<and> w \<noteq> ''.'') (split_slash name)"

definition joinpath :: "path \<Rightarrow> string \<Rightarrow> path" where
  "joinpath d name =
     (case name of
        [] \<Rightarrow> d
      | c # _ \<Rightarrow> if c = CHR ''/'' then parts name else d @ parts name)"

text \<open>
  \<^verbatim>\<open>open(file_path, "wb")\<close> and the write. The system walks the components before the
  last from the root, \<^verbatim>\<open>..\<close> stepping to the parent, and each directory reached must
  exist; the last component must not name a directory. Symbolic links are not modelled.
\<close>

fun walk :: "disk \<Rightarrow> path \<Rightarrow> path \<Rightarrow> path option" where
  "walk d cur [] = Some cur"
| "walk d cur (c # cs) =
     (let nxt = (if c = ''..'' then butlast cur else cur @ [c])
      in if d nxt = Some Dir then walk d nxt cs else None)"

definition open_write :: "path \<Rightarrow> string \<Rightarrow> disk \<Rightarrow> exn + disk" where
  "open_write p content d =
     (if p = [] then Inl (Exn OSError ''Is a directory'')
      else
        (case walk d [] (butlast p) of
           None \<Rightarrow> Inl (Exn OSError ''No such file or directory'')
         | Some dir \<Rightarrow>
             if last p = ''..'' \<or> d (dir @ [last p]) = Some Dir
             then Inl (Exn OSError ''Is a directory'')
             else Inr (d(dir @ [last p] \<mapsto> File content))))"

subsection \<open>Requests, responses and the global state\<close>

datatype pyval = PyStr string | PyDict "(string \<times> pyval) list" | PyOther string

record QueryRequest =
  req_query :: string
  req_mode :: string
  req_multimodal :: bool
  req_top_k :: int

record QueryResponse =
  answer :: string
  sources :: "(string \<times> pyval) list list"
  mode :: string
  processing_time :: real

record DocumentStatus =
  document_id :: string
  filename :: string
  status :: string
  progress :: real
  error :: "string option"
  created_at :: string

record UploadFile =
  upload_filename :: string
  upload_content :: string

text \<open>
  What the awaited ingestion routine raises is either an exception derived from
  \<^verbatim>\<open>Exception\<close>, or one derived from \<^verbatim>\<open>BaseException\<close> only
  (\<^verbatim>\<open>asyncio.CancelledError\<close>, \<^verbatim>\<open>KeyboardInterrupt\<close>, \<^verbatim>\<open>SystemExit\<close>), given by the
  name of its class.
\<close>

datatype raised = Exception exn | BaseException string

text \<open>
  The methods of the RAG-Anything instance that the endpoints call. The ingestion
  routine works on the disk and either returns or raises; a query returns a Python value
  or raises an exception derived from \<^verbatim>\<open>Exception\<close>.
\<close>

record rag_lib =
  process_document_complete :: "path \<Rightarrow> path \<Rightarrow> disk \<Rightarrow> raised option \<times> disk"
  aquery :: "string \<Rightarrow> string \<Rightarrow> exn + pyval"
  aquery_with_multimodal :: "string \<Rightarrow> string \<Rightarrow> exn + pyval"

text \<open>
  The globals \<^verbatim>\<open>rag_instance\<close> and \<^verbatim>\<open>processing_status\<close>, and the disk the server
  works on.
\<close>

record rag_state =
  rag_instance :: "rag_lib option"
  processing_status :: "string \<rightharpoonup> DocumentStatus"
  files :: disk

text \<open>
  A \<^verbatim>\<open>BackgroundTasks\<close> object holds the calls of \<^verbatim>\<open>process_document\<close> added to it,
  each with its two arguments; they run after the response has been sent.
\<close>

type_synonym background_tasks = "(string \<times> path) list"

subsection \<open>Statements that may raise\<close>

text \<open>
  A statement takes the state to a new state and may raise on the way; what it changed
  before raising stays changed. \<open>block\<close> runs statements in order up to the first
  raise. \<open>try_except\<close> is \<^verbatim>\<open>try: ... except Exception as e: ...\<close>: it runs the
  handler on the state that an exception derived from \<^verbatim>\<open>Exception\<close> left, and lets any
  other raise pass.
\<close>

type_synonym stmt = "rag_state \<Rightarrow> raised option \<times> rag_state"

fun block :: "stmt list \<Rightarrow> stmt" where
  "block [] s = (None, s)"
| "block (c # cs) s =
     (case c s of
        (Some x, s') \<Rightarrow> (Some x, s')
      | (None, s') \<Rightarrow> block cs s')"

definition try_except :: "stmt \<Rightarrow> (exn \<Rightarrow> stmt) \<Rightarrow> stmt" where
  "try_except body handler s =
     (case body s of
        (Some (Exception e), s') \<Rightarrow> handler e s'
      | (Some (BaseException b), s') \<Rightarrow> (Some (BaseException b), s')
      | (None, s') \<Rightarrow> (None, s'))"

text \<open>
  \<^verbatim>\<open>processing_status[doc_id].field = value\<close>: the subscript raises \<^verbatim>\<open>KeyError\<close> for
  an unknown identifier, whose text is the quoted key.
\<close>

definition assign_field :: "string \<Rightarrow> (DocumentStatus \<Rightarrow> DocumentStatus) \<Rightarrow> stmt" where
  "assign_field doc_id upd s =
     (case processing_status s doc_id of
        None \<Rightarrow> (Some (Exception (Exn KeyError (CHR 0x27 # doc_id @ [CHR 0x27]))), s)
      | Some r \<Rightarrow> (None, s\<lparr>processing_status := (processing_status s)(doc_id \<mapsto> upd r)\<rparr>))"

subsection \<open>Document endpoints\<close>

text \<open>
  \<^verbatim>\<open>upload_document\<close> raises \<^verbatim>\<open>HTTPException(503)\<close> itself; an exception of
  \<^verbatim>\<open>mkdir\<close> or \<^verbatim>\<open>open\<close> is not handled in the endpoint and leaves it before the
  record is registered and the task added. \<open>uuid4\<close> is the string that
  \<^verbatim>\<open>str(uuid.uuid4())\<close> yields and \<open>utcnow\<close> the one that
  \<^verbatim>\<open>datetime.utcnow().isoformat()\<close> yields.
\<close>

datatype failure = Raises_HTTP http_error | Unhandled exn

definition upload_document ::
  "Config \<Rightarrow> rag_state \<Rightarrow> background_tasks \<Rightarrow> UploadFile \<Rightarrow> string \<Rightarrow> string
     \<Rightarrow> (failure + (string \<times> string) list) \<times> rag_state \<times> background_tasks" where
  "upload_document C s tasks file uuid4 utcnow =
     (if rag_instance s = None
      then (Inl (Raises_HTTP (HTTPException 503 ''RAG not initialized'')), s, tasks)
      else
        (let doc_id = uuid4;
             doc_dir = documents_dir C @ [doc_id]
         in case mkdir_parents doc_dir (files s) of
              Inl e \<Rightarrow> (Inl (Unhandled e), s, tasks)
            | Inr d1 \<Rightarrow>
                (let file_path = joinpath doc_dir (upload_filename file)
                 in case open_write file_path (upload_content file) d1 of
                      Inl e \<Rightarrow> (Inl (Unhandled e), s\<lparr>files := d1\<rparr>, tasks)
                    | Inr d2 \<Rightarrow>
                        (let rec = \<lparr>document_id = doc_id,
                                    filename = upload_filename file,
                                    status = ''pending'',
                                    progress = 0.0,
                                    error = None,
                                    created_at = utcnow\<rparr>;
                             s' = s\<lparr>files := d2,
                                    processing_status :=
                                      (processing_status s)(doc_id \<mapsto> rec)\<rparr>
                         in (Inr [(''document_id'', doc_id), (''status'', ''processing'')],
                             s',
                             tasks @ [(doc_id, file_path)])))))"

text \<open>
  \<^verbatim>\<open>process_document\<close>, in parts: the two assignments that mark the record, the
  \<^verbatim>\<open>mkdir\<close> of the output directory, the awaited call of the ingestion routine
  (\<^verbatim>\<open>rag_instance\<close> being \<^verbatim>\<open>None\<close> raises \<^verbatim>\<open>AttributeError\<close>), and the statements
  after it; then the handler.
\<close>

definition process_mark :: "string \<Rightarrow> stmt" where
  "process_mark doc_id =
     block
       [assign_field doc_id (\<lambda>r. r\<lparr>status := ''processing''\<rparr>),
        assign_field doc_id (\<lambda>r. r\<lparr>progress := 0.1\<rparr>)]"

definition process_mkdir :: "Config \<Rightarrow> string \<Rightarrow> stmt" where
  "process_mkdir C doc_id s =
     (case mkdir_parents (working_dir C @ [doc_id]) (files s) of
        Inl e \<Rightarrow> (Some (Exception e), s)
      | Inr d \<Rightarrow> (None, s\<lparr>files := d\<rparr>))"

definition process_begin :: "Config \<Rightarrow> string \<Rightarrow> stmt" where
  "process_begin C doc_id = block [process_mark doc_id, process_mkdir C doc_id]"

definition process_ingest :: "Config \<Rightarrow> string \<Rightarrow> path \<Rightarrow> stmt" where
  "process_ingest C doc_id file_path s =
     (case rag_instance s of
        None \<Rightarrow>
          (Some (Exception (Exn AttributeError
             ''NoneType object has no attribute process_document_complete'')), s)
      | Some rag \<Rightarrow>
          (case process_document_complete rag file_path (working_dir C @ [doc_id]) (files s) of
             (outcome, d) \<Rightarrow> (outcome, s\<lparr>files := d\<rparr>)))"

definition process_end :: "string \<Rightarrow> stmt" where
  "process_end doc_id =
     block
       [assign_field doc_id (\<lambda>r. r\<lparr>status := ''completed''\<rparr>),
        assign_field doc_id (\<lambda>r. r\<lparr>progress := 1.0\<rparr>)]"

definition process_failed :: "string \<Rightarrow> exn \<Rightarrow> stmt" where
  "process_failed doc_id e =
     block
       [assign_field doc_id (\<lambda>r. r\<lparr>status := ''failed''\<rparr>),
        assign_field doc_id (\<lambda>r. r\<lparr>error := Some (exn_text e)\<rparr>)]"

definition process_document :: "Config \<Rightarrow> string \<Rightarrow> path \<Rightarrow> stmt" where
  "process_document C doc_id file_path =
     try_except
       (block [process_begin C doc_id, process_ingest C doc_id file_path, process_end doc_id])
       (process_failed doc_id)"

definition get_document_status :: "rag_state \<Rightarrow> string \<Rightarrow> http_error + DocumentStatus" where
  "get_document_status s doc_id =
     (case processing_status s doc_id of
        None \<Rightarrow> Inl (HTTPException 404 ''Document not found'')
      | Some r \<Rightarrow> Inr r)"

definition delete_document ::
  "Config \<Rightarrow> rag_state \<Rightarrow> string \<Rightarrow> (http_error + (string \<times> string) list) \<times> rag_state" where
  "delete_document C s doc_id =
     (if processing_status s doc_id = None
      then (Inl (HTTPException 404 ''Document not found''), s)
      else
        (let doc_dir = documents_dir C @ [doc_id];
             d1 = (if path_exists (files s) doc_dir then rmtree doc_dir (files s) else files s);
             output_dir = working_dir C @ [doc_id];
             d2 = (if path_exists d1 output_dir then rmtree output_dir d1 else d1)
         in (Inr [(''status'', ''deleted'')],
             s\<lparr>files := d2, processing_status := (processing_status s)(doc_id := None)\<rparr>)))"

subsection \<open>Query endpoint\<close>

text \<open>
  \<^verbatim>\<open>result if isinstance(result, str) else result.get("answer", str(result))\<close>, then
  the validation of the field \<^verbatim>\<open>answer: str\<close>. \<open>str_of\<close> is Python's \<^verbatim>\<open>str\<close>, and
  \<open>coerce_str\<close> is what the response model makes of a value that is not a string.
\<close>

record py_builtins =
  str_of :: "pyval \<Rightarrow> string"
  coerce_str :: "pyval \<Rightarrow> exn + string"

definition answer_of :: "py_builtins \<Rightarrow> pyval \<Rightarrow> exn + string" where
  "answer_of B result =
     (case result of
        PyStr a \<Rightarrow> Inr a
      | PyDict entries \<Rightarrow>
          (case map_of entries ''answer'' of
             None \<Rightarrow> Inr (str_of B result)
           | Some (PyStr a) \<Rightarrow> Inr a
           | Some v \<Rightarrow> coerce_str B v)
      | PyOther _ \<Rightarrow> Inl (Exn AttributeError ''object has no attribute get''))"

definition query ::
  "py_builtins \<Rightarrow> rag_state \<Rightarrow> QueryRequest \<Rightarrow> real \<Rightarrow> real \<Rightarrow> http_error + QueryResponse" where
  "query B s request start_time end_time =
     (case rag_instance s of
        None \<Rightarrow> Inl (HTTPException 503 ''RAG not initialized'')
      | Some rag \<Rightarrow>
          (case (if req_multimodal request
                 then aquery_with_multimodal rag (req_query request) (req_mode request)
                 else aquery rag (req_query request) (req_mode request)) of
             Inl e \<Rightarrow> Inl (HTTPException 500 (exn_text e))
           | Inr result \<Rightarrow>
               (case answer_of B result of
                  Inl e \<Rightarrow> Inl (HTTPException 500 (exn_text e))
                | Inr a \<Rightarrow>
                    Inr \<lparr>answer = a,
                         sources = [],
                         mode = req_mode request,
                         processing_time = end_time - start_time\<rparr>)))"

subsection \<open>Embedding function for the RAG library\<close>

text \<open>
  \<open>create\<close> is \<^verbatim>\<open>client.embeddings.create(model=..., input=batch)\<close> followed by
  \<^verbatim>\<open>[e.embedding for e in response.data]\<close>. The loop is
  \<^verbatim>\<open>for i in range(0, len(texts), batch_size)\<close>; an exception is logged and raised
  again. The requests sent are returned with the result, in the order sent.
\<close>

definition batch_size :: nat where
  "batch_size = 32"

function embedding_loop ::
  "(string list \<Rightarrow> exn + real list list) \<Rightarrow> string list \<Rightarrow> nat \<Rightarrow> real list list
     \<Rightarrow> string list list \<Rightarrow> (exn + real list list) \<times> string list list" where
  "embedding_loop create texts i embs sent =
     (if i < length texts
      then
        (let batch = take batch_size (drop i texts) in
         case create batch of
           Inl e \<Rightarrow> (Inl e, sent @ [batch])
         | Inr data \<Rightarrow> embedding_loop create texts (i + batch_size) (embs @ data) (sent @ [batch]))
      else (Inr embs, sent))"
  by pat_completeness auto
termination
  by (relation "measure (\<lambda>(create, texts, i, embs, sent). length texts - i)")
     (auto simp: batch_size_def)

declare embedding_loop.simps [simp del]

definition embedding_func ::
  "Config \<Rightarrow> (string \<Rightarrow> string list \<Rightarrow> exn + real list list) \<Rightarrow> string list
     \<Rightarrow> (exn + real list list) \<times> string list list" where
  "embedding_func C create texts = embedding_loop (create (embedding_model C)) texts 0 [] []"

subsection \<open>The chunking that the specification describes\<close>

text \<open>
  Consecutive groups of \<open>n\<close> elements, the last one holding what is left. This follows
  the specification's words, not the code; it is what \<open>embedding_loop\<close> is compared with.
\<close>

function chunks_of :: "nat \<Rightarrow> 'a list \<Rightarrow> 'a list list" where
  "chunks_of n xs = (if n = 0 \<or> xs = [] then [] else take n xs # chunks_of n (drop n xs))"
  by pat_completeness auto
termination
  by (relation "measure (\<lambda>(n, xs). length xs)") auto

declare chunks_of.simps [simp del]

section \<open>Sample instances\<close>

text \<open>
  A library instance to run the embedding server on: two strings decode to an image, and
  the model returns a vector for the first image and raises for every other.
\<close>

definition demo_libs :: "(nat, nat) libs" where
  "demo_libs =
     \<lparr>open_image = (\<lambda>s. if s = ''aGk='' then Inr ''hi''
                          else if s = ''eW8='' then Inr ''yo''
                          else Inl (Exn OtherException ''cannot identify image file'')),
      run_model = (\<lambda>m p d img. if img = ''hi'' then Inr [1, 2]
                                else Inl (Exn RuntimeError ''CUDA out of memory''))\<rparr>"

definition loaded :: "(nat, nat) globals" where
  "loaded = \<lparr>model = Some 1, processor = Some 2, device = Some ''cpu''\<rparr>"

definition unloaded :: "(nat, nat) globals" where
  "unloaded = \<lparr>model = None, processor = None, device = None\<rparr>"

text \<open>
  The globals after \<^verbatim>\<open>load_model\<close> has assigned \<^verbatim>\<open>model\<close> and
  \<^verbatim>\<open>ColQwen2Processor.from_pretrained\<close> has raised.
\<close>

definition model_only :: "(nat, nat) globals" where
  "model_only = \<lparr>model = Some 1, processor = None, device = Some ''cpu''\<rparr>"

text \<open>
  A RAG-Anything instance to run the server on. Ingestion raises on a file named
  \<^verbatim>\<open>bad.pdf\<close>, raises an exception that has no message on \<^verbatim>\<open>slow.pdf\<close>, is
  cancelled on \<^verbatim>\<open>stop.pdf\<close>, and otherwise writes one file to the output directory.
  A query for the empty string raises.
\<close>

definition demo_config :: Config where
  "demo_config =
     \<lparr>embedding_model = ''all-minilm-l6-v2'',
      working_dir = [''data'', ''rag''],
      documents_dir = [''data'', ''documents'']\<rparr>"

definition demo_rag :: rag_lib where
  "demo_rag =
     \<lparr>process_document_complete =
        (\<lambda>file_path output_dir d.
           if ''bad.pdf'' \<in> set file_path
           then (Some (Exception (Exn ValueError ''cannot parse'')), d)
           else if ''slow.pdf'' \<in> set file_path
           then (Some (Exception (Exn OtherException '''')), d)
           else if ''stop.pdf'' \<in> set file_path
           then (Some (BaseException ''CancelledError''), d)
           else (None, write_file (output_dir @ [''content.json'']) ''{}'' d)),
      aquery =
        (\<lambda>q m. if q = '''' then Inl (Exn ValueError ''empty query'')
               else Inr (PyStr ''forty-two'')),
      aquery_with_multimodal =
        (\<lambda>q m. Inr (PyDict [(''answer'', PyStr ''see table 2''), (''mode'', PyStr m)]))\<rparr>"

definition demo_builtins :: py_builtins where
  "demo_builtins =
     \<lparr>str_of = (\<lambda>v. case v of PyStr a \<Rightarrow> a | PyDict _ \<Rightarrow> ''{...}'' | PyOther a \<Rightarrow> a),
      coerce_str = (\<lambda>v. Inl (Exn ValueError ''Input should be a valid string''))\<rparr>"

definition started :: rag_state where
  "started = \<lparr>rag_instance = Some demo_rag, processing_status = Map.empty, files = (\<lambda>p. None)\<rparr>"

definition demo_record :: "string \<Rightarrow> DocumentStatus" where
  "demo_record name =
     \<lparr>document_id = ''d1'', filename = name, status = ''pending'', progress = 0.0,
      error = None, created_at = ''2026-01-01T00:00:00''\<rparr>"

definition tracked :: "string \<Rightarrow> rag_state" where
  "tracked name =
     \<lparr>rag_instance = Some demo_rag,
      processing_status = [''d1'' \<mapsto> demo_record name],
      files = [[''data''] \<mapsto> Dir, [''data'', ''documents''] \<mapsto> Dir,
               [''data'', ''documents'', ''d1''] \<mapsto> Dir,
               [''data'', ''documents'', ''d1'', name] \<mapsto> File ''%PDF'']\<rparr>"

text \<open>An embeddings endpoint that returns one vector per text: its length, as a number.\<close>

definition demo_create :: "string \<Rightarrow> string list \<Rightarrow> exn + real list list" where
  "demo_create m batch = Inr (map (\<lambda>t. [real (length t)]) batch)"

definition demo_texts :: "string list" where
  "demo_texts = replicate 32 ''a'' @ [''bc'']"

section \<open>Properties of the embedding server\<close>

subsection \<open>The batch loop\<close>

lemma embeddable_cases:
  assumes "embeddable L m p d b"
  shows "\<exists>img v. open_image L b = Inr img \<and> run_model L m p d img = Inr v"
proof (cases "open_image L b")
  case (Inl e)
  with assms show ?thesis by (simp add: embeddable_def)
next
  case (Inr img)
  with assms have "\<not> isl (run_model L m p d img)" by (simp add: embeddable_def)
  then obtain v where "run_model L m p d img = Inr v"
    by (cases "run_model L m p d img") simp_all
  with Inr show ?thesis by simp
qed

lemma embed_batch_loop_ok:
  assumes "model g = Some m" "processor g = Some p"
    and "\<forall>b\<in>set imgs. embeddable L m p (device g) b"
  shows "\<exists>vs. embed_batch_loop L g imgs embs tr =
           (Inr (embs @ vs), tr @ concat (map (image_calls L) imgs)) \<and>
         list_all2 (embeds_to L m p (device g)) imgs vs"
  using assms(3)
proof (induction imgs arbitrary: embs tr)
  case Nil
  then show ?case by simp
next
  case (Cons b imgs)
  from Cons.prems have "embeddable L m p (device g) b" by simp
  from embeddable_cases [OF this] obtain img v where
    o: "open_image L b = Inr img" and r: "run_model L m p (device g) img = Inr v"
    by blast
  from Cons.prems have "\<forall>b\<in>set imgs. embeddable L m p (device g) b" by simp
  from Cons.IH [OF this, of "embs @ [v]" "tr @ [OpenImage b, RunModel img]"]
  obtain vs where
    l: "embed_batch_loop L g imgs (embs @ [v]) (tr @ [OpenImage b, RunModel img]) =
          (Inr ((embs @ [v]) @ vs),
           (tr @ [OpenImage b, RunModel img]) @ concat (map (image_calls L) imgs))"
    and a: "list_all2 (embeds_to L m p (device g)) imgs vs"
    by blast
  have "embed_batch_loop L g (b # imgs) embs tr =
          (Inr (embs @ v # vs), tr @ concat (map (image_calls L) (b # imgs)))"
    using o r l assms(1,2) by (simp add: decode_image_def embed_image_def image_calls_def)
  moreover have "list_all2 (embeds_to L m p (device g)) (b # imgs) (v # vs)"
    using a o r by (simp add: embeds_to_def)
  ultimately show ?case by blast
qed

lemma embed_batch_loop_bad:
  assumes "model g = Some m" "processor g = Some p"
    and "\<forall>b\<in>set pre. embeddable L m p (device g) b"
    and "open_image L bad = Inl e"
  shows "embed_batch_loop L g (pre @ bad # rest) embs tr =
           (Inl (Exn ValueError (''Invalid image data: '' @ exn_text e)),
            tr @ concat (map (image_calls L) pre) @ [OpenImage bad])"
  using assms(3)
proof (induction pre arbitrary: embs tr)
  case Nil
  then show ?case using assms(4) by (simp add: decode_image_def)
next
  case (Cons b pre)
  from Cons.prems have "embeddable L m p (device g) b" by simp
  from embeddable_cases [OF this] obtain img v where
    o: "open_image L b = Inr img" and r: "run_model L m p (device g) img = Inr v"
    by blast
  from Cons.prems have "\<forall>b\<in>set pre. embeddable L m p (device g) b" by simp
  from Cons.IH [OF this, of "embs @ [v]" "tr @ [OpenImage b, RunModel img]"]
  show ?case
    using o r assms(1,2) by (simp add: decode_image_def embed_image_def image_calls_def)
qed


lemma embed_batch_loop_raise:
  assumes "model g = Some m" "processor g = Some p"
    and "\<forall>b\<in>set pre. embeddable L m p (device g) b"
    and "open_image L b = Inr img"
    and "run_model L m p (device g) img = Inl x"
  shows "embed_batch_loop L g (pre @ b # rest) embs tr =
           (Inl x, tr @ concat (map (image_calls L) pre) @ [OpenImage b, RunModel img])"
  using assms(3)
proof (induction pre arbitrary: embs tr)
  case Nil
  then show ?case
    using assms(1,2,4,5) by (simp add: decode_image_def embed_image_def)
next
  case (Cons a pre)
  from Cons.prems have "embeddable L m p (device g) a" by simp
  from embeddable_cases [OF this] obtain ia v where
    o: "open_image L a = Inr ia" and r: "run_model L m p (device g) ia = Inr v"
    by blast
  from Cons.prems have "\<forall>b\<in>set pre. embeddable L m p (device g) b" by simp
  from Cons.IH [OF this, of "embs @ [v]" "tr @ [OpenImage a, RunModel ia]"]
  show ?case
    using o r assms(1,2) by (simp add: decode_image_def embed_image_def image_calls_def)
qed

text \<open>
  C1, as amended. With no model loaded \<open>embed_batch\<close> fails with
  \<^verbatim>\<open>HTTPException(503)\<close>, whatever the batch. With the model and the processor loaded:
  when every image of the batch decodes and the model returns a vector for each,
  \<open>embed_batch\<close> returns one vector per image, the vector at each position being the
  model's for the image at that position; when the images before an undecodable one are
  such, \<open>embed_batch\<close> fails with \<^verbatim>\<open>HTTPException(400)\<close>, so returns no vector, and the
  library calls stop at the attempt to decode that image: no call is made for an image
  after it; and when instead the model raises on an image after such images,
  \<open>embed_batch\<close> fails there with \<^verbatim>\<open>HTTPException(500)\<close>, or with 400 when what the
  model raised is a \<^verbatim>\<open>ValueError\<close>, again returning no vector and making no call for a
  later image.
\<close>

theorem embed_batch_loaded:
  "(model g = None \<longrightarrow>
      embed_batch L g \<lparr>images = imgs\<rparr> tr =
        (Inl (HTTPException 503 ''Model not loaded''), tr)) \<and>
   (model g = Some m \<and> processor g = Some p \<longrightarrow>
      ((\<forall>b\<in>set imgs. embeddable L m p (device g) b) \<longrightarrow>
         (\<exists>resp. embed_batch L g \<lparr>images = imgs\<rparr> tr =
                   (Inr resp, tr @ concat (map (image_calls L) imgs)) \<and>
                 length (embeddings resp) = length imgs \<and>
                 count resp = int (length imgs) \<and>
                 list_all2 (embeds_to L m p (device g)) imgs (embeddings resp))) \<and>
      ((\<forall>b\<in>set pre. embeddable L m p (device g) b) \<and> open_image L bad = Inl e \<longrightarrow>
         embed_batch L g \<lparr>images = pre @ bad # rest\<rparr> tr =
           (Inl (HTTPException 400 (''Invalid image data: '' @ exn_text e)),
            tr @ concat (map (image_calls L) pre) @ [OpenImage bad])) \<and>
      ((\<forall>b\<in>set pre. embeddable L m p (device g) b) \<and> open_image L bad = Inr img \<and>
       run_model L m p (device g) img = Inl x \<longrightarrow>
         embed_batch L g \<lparr>images = pre @ bad # rest\<rparr> tr =
           (Inl (if exn_class x = ValueError then HTTPException 400 (exn_text x)
                 else HTTPException 500 (exn_text x)),
            tr @ concat (map (image_calls L) pre) @ [OpenImage bad, RunModel img])))"
proof (intro conjI impI)
  assume "model g = None"
  then show "embed_batch L g \<lparr>images = imgs\<rparr> tr =
               (Inl (HTTPException 503 ''Model not loaded''), tr)"
    by (simp add: embed_batch_def)
next
  assume mp: "model g = Some m \<and> processor g = Some p"
    and ok: "\<forall>b\<in>set imgs. embeddable L m p (device g) b"
  from mp have m: "model g = Some m" and p: "processor g = Some p" by simp_all
  from embed_batch_loop_ok [OF m p ok, of "[]" tr] obtain vs where
    l: "embed_batch_loop L g imgs [] tr = (Inr vs, tr @ concat (map (image_calls L) imgs))"
    and a: "list_all2 (embeds_to L m p (device g)) imgs vs"
    by auto
  from a have n: "length vs = length imgs" by (simp add: list_all2_lengthD)
  show "\<exists>resp. embed_batch L g \<lparr>images = imgs\<rparr> tr =
                  (Inr resp, tr @ concat (map (image_calls L) imgs)) \<and>
                length (embeddings resp) = length imgs \<and>
                count resp = int (length imgs) \<and>
                list_all2 (embeds_to L m p (device g)) imgs (embeddings resp)"
    using l a n m by (simp add: embed_batch_def)
next
  assume mp: "model g = Some m \<and> processor g = Some p"
    and h: "(\<forall>b\<in>set pre. embeddable L m p (device g) b) \<and> open_image L bad = Inl e"
  from mp have m: "model g = Some m" and p: "processor g = Some p" by simp_all
  from h have ok: "\<forall>b\<in>set pre. embeddable L m p (device g) b"
    and bad: "open_image L bad = Inl e" by simp_all
  show "embed_batch L g \<lparr>images = pre @ bad # rest\<rparr> tr =
          (Inl (HTTPException 400 (''Invalid image data: '' @ exn_text e)),
           tr @ concat (map (image_calls L) pre) @ [OpenImage bad])"
    using embed_batch_loop_bad [OF m p ok bad, of rest "[]" tr] m
    by (simp add: embed_batch_def handle_exn_def)
next
  assume mp: "model g = Some m \<and> processor g = Some p"
    and h: "(\<forall>b\<in>set pre. embeddable L m p (device g) b) \<and> open_image L bad = Inr img \<and>
            run_model L m p (device g) img = Inl x"
  from mp have m: "model g = Some m" and p: "processor g = Some p" by simp_all
  from h have ok: "\<forall>b\<in>set pre. embeddable L m p (device g) b"
    and o: "open_image L bad = Inr img"
    and r: "run_model L m p (device g) img = Inl x" by simp_all
  show "embed_batch L g \<lparr>images = pre @ bad # rest\<rparr> tr =
          (Inl (if exn_class x = ValueError then HTTPException 400 (exn_text x)
                else HTTPException 500 (exn_text x)),
           tr @ concat (map (image_calls L) pre) @ [OpenImage bad, RunModel img])"
    using embed_batch_loop_raise [OF m p ok o r, of rest "[]" tr] m
    by (simp add: embed_batch_def handle_exn_def)
qed

text \<open>
  The theorem with no model loaded, at a batch of two good images, at a batch with an
  undecodable image in the middle, and at a batch with an image on which the model raises.
\<close>

theorem embed_batch_loaded_witness:
  "model unloaded = None \<and>
   embed_batch demo_libs unloaded \<lparr>images = [''aGk='']\<rparr> [] =
     (Inl (HTTPException 503 ''Model not loaded''), []) \<and>
   model loaded = Some 1 \<and> processor loaded = Some 2 \<and>
   embeddable demo_libs 1 2 (device loaded) ''aGk='' \<and>
   open_image demo_libs ''!!'' = Inl (Exn OtherException ''cannot identify image file'') \<and>
   open_image demo_libs ''eW8='' = Inr ''yo'' \<and>
   run_model demo_libs 1 2 (device loaded) ''yo'' = Inl (Exn RuntimeError ''CUDA out of memory'') \<and>
   embed_batch demo_libs loaded \<lparr>images = [''aGk='', ''aGk='']\<rparr> [] =
     (Inr \<lparr>embeddings = [[1, 2], [1, 2]], count = 2, dim = 2\<rparr>,
      [OpenImage ''aGk='', RunModel ''hi'', OpenImage ''aGk='', RunModel ''hi'']) \<and>
   embed_batch demo_libs loaded \<lparr>images = [''aGk='', ''!!'', ''aGk='']\<rparr> [] =
     (Inl (HTTPException 400 ''Invalid image data: cannot identify image file''),
      [OpenImage ''aGk='', RunModel ''hi'', OpenImage ''!!'']) \<and>
   embed_batch demo_libs loaded \<lparr>images = [''aGk='', ''eW8='', ''aGk='']\<rparr> [] =
     (Inl (HTTPException 500 ''CUDA out of memory''),
      [OpenImage ''aGk='', RunModel ''hi'', OpenImage ''eW8='', RunModel ''yo''])"
proof -
  have u: "model unloaded = None" by (simp add: unloaded_def)
  have m: "model loaded = Some 1" and p: "processor loaded = Some 2"
    by (simp_all add: loaded_def)
  have e: "embeddable demo_libs 1 2 (device loaded) ''aGk=''"
    by (simp add: embeddable_def demo_libs_def)
  have b: "open_image demo_libs ''!!'' = Inl (Exn OtherException ''cannot identify image file'')"
    by (simp add: demo_libs_def)
  have o: "open_image demo_libs ''aGk='' = Inr ''hi''"
    by (simp add: demo_libs_def)
  have r: "run_model demo_libs 1 2 (device loaded) ''hi'' = Inr [1, 2]"
    by (simp add: demo_libs_def)
  have o2: "open_image demo_libs ''eW8='' = Inr ''yo''"
    by (simp add: demo_libs_def)
  have r2: "run_model demo_libs 1 2 (device loaded) ''yo'' =
              Inl (Exn RuntimeError ''CUDA out of memory'')"
    by (simp add: demo_libs_def)
  have h1: "\<forall>b\<in>set [''aGk='', ''aGk='']. embeddable demo_libs 1 2 (device loaded) b"
    using e by simp
  have h2: "\<forall>b\<in>set [''aGk='']. embeddable demo_libs 1 2 (device loaded) b"
    using e by simp
  note w0 = embed_batch_loaded [where g = unloaded and L = demo_libs and imgs = "[''aGk='']"
      and tr = "[]", THEN conjunct1, THEN mp, OF u]
  note w1 = embed_batch_loaded [where g = loaded and m = 1 and p = 2 and L = demo_libs
      and imgs = "[''aGk='', ''aGk='']" and tr = "[]",
      THEN conjunct2, THEN mp, OF conjI [OF m p], THEN conjunct1, THEN mp, OF h1]
  note w2 = embed_batch_loaded [where g = loaded and m = 1 and p = 2 and L = demo_libs
      and pre = "[''aGk='']" and rest = "[''aGk='']" and tr = "[]"
      and bad = "''!!''" and e = "Exn OtherException ''cannot identify image file''",
      THEN conjunct2, THEN mp, OF conjI [OF m p], THEN conjunct2, THEN conjunct1, THEN mp,
      OF conjI [OF h2 b]]
  note w3 = embed_batch_loaded [where g = loaded and m = 1 and p = 2 and L = demo_libs
      and pre = "[''aGk='']" and rest = "[''aGk='']" and tr = "[]"
      and bad = "''eW8=''" and img = "''yo''" and x = "Exn RuntimeError ''CUDA out of memory''",
      THEN conjunct2, THEN mp, OF conjI [OF m p], THEN conjunct2, THEN conjunct2, THEN mp,
      OF conjI [OF h2 conjI [OF o2 r2]]]
  have c: "image_calls demo_libs ''aGk='' = [OpenImage ''aGk='', RunModel ''hi'']"
    by (simp add: image_calls_def o)
  have v: "embed_batch demo_libs loaded \<lparr>images = [''aGk='', ''aGk='']\<rparr> [] =
     (Inr \<lparr>embeddings = [[1, 2], [1, 2]], count = 2, dim = 2\<rparr>,
      [OpenImage ''aGk='', RunModel ''hi'', OpenImage ''aGk='', RunModel ''hi''])"
    using m p o r by (simp add: embed_batch_def decode_image_def embed_image_def)
  show ?thesis using u w0 m p e b o2 r2 v w1 w2 w3 c by simp
qed

text \<open>
  C1 as stated fails. With no model loaded, a batch of one decodable image is
  answered 503 and no vector. With everything loaded, a batch of a decodable image on
  which the model raises, followed by an undecodable one, is answered 500, not 400.
\<close>

theorem embed_batch_counterexample:
  "open_image demo_libs ''aGk='' = Inr ''hi'' \<and>
   embed_batch demo_libs unloaded \<lparr>images = [''aGk='']\<rparr> [] =
     (Inl (HTTPException 503 ''Model not loaded''), []) \<and>
   open_image demo_libs ''eW8='' = Inr ''yo'' \<and>
   open_image demo_libs ''!!'' = Inl (Exn OtherException ''cannot identify image file'') \<and>
   embed_batch demo_libs loaded \<lparr>images = [''eW8='', ''!!'']\<rparr> [] =
     (Inl (HTTPException 500 ''CUDA out of memory''), [OpenImage ''eW8='', RunModel ''yo''])"
  by (simp add: embed_batch_def unloaded_def loaded_def demo_libs_def decode_image_def
      embed_image_def handle_exn_def)

subsection \<open>The degraded state\<close>

text \<open>
  C2. With the model handle present and the processor handle absent, the health check
  reports \<open>model_loaded = False\<close>, yet \<open>embed\<close> and \<open>embed_batch\<close> answer a decodable
  image with 500, an undecodable one with 400, and the empty batch with success: the
  guard of the endpoints tests the model handle only.
\<close>

theorem degraded_answers_500:
  "model_loaded (health_check ''vidore/colqwen2-v1.0'' False model_only) = False \<and>
   embed demo_libs model_only \<lparr>image = ''aGk=''\<rparr> [] =
     (Inl (HTTPException 500 ''Model not loaded''), [OpenImage ''aGk='']) \<and>
   embed_batch demo_libs model_only \<lparr>images = [''aGk='']\<rparr> [] =
     (Inl (HTTPException 500 ''Model not loaded''), [OpenImage ''aGk='']) \<and>
   embed demo_libs model_only \<lparr>image = ''!!''\<rparr> [] =
     (Inl (HTTPException 400 ''Invalid image data: cannot identify image file''),
      [OpenImage ''!!'']) \<and>
   embed_batch demo_libs model_only \<lparr>images = []\<rparr> [] =
     (Inr \<lparr>embeddings = [], count = 0, dim = 0\<rparr>, [])"
  by (simp add: health_check_def embed_def embed_batch_def model_only_def demo_libs_def
      decode_image_def embed_image_def handle_exn_def)

text \<open>With the model handle absent both endpoints answer 503, whatever the request.\<close>

lemma model_absent_answers_503:
  assumes "model g = None"
  shows "embed L g request tr = (Inl (HTTPException 503 ''Model not loaded''), tr)"
    and "embed_batch L g batch tr = (Inl (HTTPException 503 ''Model not loaded''), tr)"
  using assms by (simp_all add: embed_def embed_batch_def)

subsection \<open>The empty batch\<close>

text \<open>
  C9. For the empty list of images and a loaded model, \<open>embed_batch\<close> succeeds with
  \<open>embeddings = []\<close>, \<open>count = 0\<close> and \<open>dim = 0\<close>, calls no library and reads no element
  of the empty result list.
\<close>

theorem embed_batch_empty:
  assumes "model g \<noteq> None"
  shows "embed_batch L g \<lparr>images = []\<rparr> tr =
           (Inr \<lparr>embeddings = [], count = 0, dim = 0\<rparr>, tr)"
  using assms by (simp add: embed_batch_def)

theorem embed_batch_empty_witness:
  "model loaded \<noteq> None \<and>
   embed_batch demo_libs loaded \<lparr>images = []\<rparr> [] =
     (Inr \<lparr>embeddings = [], count = 0, dim = 0\<rparr>, [])"
  using embed_batch_empty [of loaded demo_libs "[]"] by (simp add: loaded_def)

section \<open>Properties of the RAG server\<close>

subsection \<open>Upload\<close>




text \<open>
  C8. The body returned by a successful upload has the status \<^verbatim>\<open>processing\<close>, while
  the record registered for the document has the status \<^verbatim>\<open>pending\<close>: the returned
  status is a literal and differs from the stored one.
\<close>

theorem upload_response_status:
  assumes "upload_document C s tasks file uuid4 utcnow = (Inr resp, s', tasks')"
  shows "map_of resp ''status'' = Some ''processing'' \<and>
         (\<exists>r. processing_status s' uuid4 = Some r \<and> status r = ''pending'' \<and>
              map_of resp ''status'' \<noteq> Some (status r))"
  using assms
  by (auto simp: upload_document_def Let_def split: if_splits sum.splits)

text \<open>The theorem at an upload of \<^verbatim>\<open>b.pdf\<close>.\<close>

theorem upload_response_status_witness:
  "fst (upload_document demo_config started []
          \<lparr>upload_filename = ''b.pdf'', upload_content = ''%PDF''\<rparr>
          ''d2'' ''2026-01-02T00:00:00'') =
     Inr [(''document_id'', ''d2''), (''status'', ''processing'')] \<and>
   map_option status
     (processing_status
        (fst (snd (upload_document demo_config started []
          \<lparr>upload_filename = ''b.pdf'', upload_content = ''%PDF''\<rparr>
          ''d2'' ''2026-01-02T00:00:00''))) ''d2'') = Some ''pending''"
proof -
  let ?u = "upload_document demo_config started []
          \<lparr>upload_filename = ''b.pdf'', upload_content = ''%PDF''\<rparr>
          ''d2'' ''2026-01-02T00:00:00''"
  have f: "fst ?u = Inr [(''document_id'', ''d2''), (''status'', ''processing'')]"
    by (simp add: upload_document_def started_def Let_def demo_config_def mkdir_parents_def
        is_file_def joinpath_def parts_def open_write_def)
  then have "?u = (Inr [(''document_id'', ''d2''), (''status'', ''processing'')],
                   fst (snd ?u), snd (snd ?u))"
    by (metis prod.collapse)
  from upload_response_status [OF this] f show ?thesis
    by auto
qed

text \<open>
  A file name with a separator: the directory it names was never made, so \<^verbatim>\<open>open\<close>
  raises, the endpoint is left by that exception, and no record is registered.
\<close>

lemma upload_missing_directory:
  "fst (upload_document demo_config started []
          \<lparr>upload_filename = ''sub/a.pdf'', upload_content = ''%PDF''\<rparr>
          ''d1'' ''2026-01-01T00:00:00'') =
     Inl (Unhandled (Exn OSError ''No such file or directory'')) \<and>
   processing_status
     (fst (snd (upload_document demo_config started []
          \<lparr>upload_filename = ''sub/a.pdf'', upload_content = ''%PDF''\<rparr>
          ''d1'' ''2026-01-01T00:00:00''))) ''d1'' = None"
  by (simp add: upload_document_def started_def Let_def demo_config_def mkdir_parents_def
      is_file_def joinpath_def parts_def open_write_def)

subsection \<open>Query\<close>

text \<open>
  C6. Every successful query returns an empty list of sources, on the multimodal path
  and on the other, whatever the request, the clock and the pipeline's result.
\<close>

theorem query_sources_empty:
  assumes "query B s request start_time end_time = Inr resp"
  shows "sources resp = []"
  using assms
  by (auto simp: query_def split: option.splits sum.splits if_splits)

text \<open>The theorem at one query on each path.\<close>

theorem query_sources_empty_witness:
  "query demo_builtins started
     \<lparr>req_query = ''what is six by seven'', req_mode = ''hybrid'', req_multimodal = False,
      req_top_k = 5\<rparr> 10 12 =
     Inr \<lparr>answer = ''forty-two'', sources = [], mode = ''hybrid'', processing_time = 2\<rparr> \<and>
   query demo_builtins started
     \<lparr>req_query = ''what is six by seven'', req_mode = ''local'', req_multimodal = True,
      req_top_k = 5\<rparr> 10 13 =
     Inr \<lparr>answer = ''see table 2'', sources = [], mode = ''local'', processing_time = 3\<rparr>"
proof -
  have a: "query demo_builtins started
     \<lparr>req_query = ''what is six by seven'', req_mode = ''hybrid'', req_multimodal = False,
      req_top_k = 5\<rparr> 10 12 =
     Inr \<lparr>answer = ''forty-two'', sources = [], mode = ''hybrid'', processing_time = 2\<rparr>"
    by (simp add: query_def started_def demo_rag_def answer_of_def)
  have b: "query demo_builtins started
     \<lparr>req_query = ''what is six by seven'', req_mode = ''local'', req_multimodal = True,
      req_top_k = 5\<rparr> 10 13 =
     Inr \<lparr>answer = ''see table 2'', sources = [], mode = ''local'', processing_time = 3\<rparr>"
    by (simp add: query_def started_def demo_rag_def answer_of_def)
  from query_sources_empty [OF a] query_sources_empty [OF b] a b show ?thesis by simp
qed

subsection \<open>Delete\<close>

lemma delete_unknown:
  assumes "processing_status s doc_id = None"
  shows "delete_document C s doc_id = (Inl (HTTPException 404 ''Document not found''), s)"
  using assms by (simp add: delete_document_def)

lemma delete_known:
  assumes "processing_status s doc_id \<noteq> None"
  shows "delete_document C s doc_id =
     (Inr [(''status'', ''deleted'')],
      s\<lparr>files :=
           (let d1 = (if path_exists (files s) (documents_dir C @ [doc_id])
                      then rmtree (documents_dir C @ [doc_id]) (files s) else files s)
            in if path_exists d1 (working_dir C @ [doc_id])
               then rmtree (working_dir C @ [doc_id]) d1 else d1),
         processing_status := (processing_status s)(doc_id := None)\<rparr>)"
  using assms by (simp add: delete_document_def Let_def)

lemma delete_files:
  fixes D W :: path
  defines "d1 \<equiv> (\<lambda>d. if path_exists d D then rmtree D d else d)"
  defines "d2 \<equiv> (\<lambda>d. if path_exists (d1 d) W then rmtree W (d1 d) else d1 d)"
  shows "\<not> path_exists (d2 d) D" and "\<not> path_exists (d2 d) W"
    and "path_exists d D \<Longrightarrow> prefix D q \<Longrightarrow> d2 d q = None"
    and "path_exists d W \<Longrightarrow> prefix W q \<Longrightarrow> d2 d q = None"
    and "\<not> prefix D q \<Longrightarrow> \<not> prefix W q \<Longrightarrow> d2 d q = d q"
proof -
  show "\<not> path_exists (d2 d) D"
    by (simp add: d1_def d2_def path_exists_def rmtree_def)
  show "\<not> path_exists (d2 d) W"
    by (simp add: d1_def d2_def path_exists_def rmtree_def)
  show "path_exists d D \<Longrightarrow> prefix D q \<Longrightarrow> d2 d q = None"
    by (simp add: d1_def d2_def path_exists_def rmtree_def)
  show "\<not> prefix D q \<Longrightarrow> \<not> prefix W q \<Longrightarrow> d2 d q = d q"
    by (simp add: d1_def d2_def path_exists_def rmtree_def)
  show "d2 d q = None" if e: "path_exists d W" and p: "prefix W q"
  proof (cases "path_exists (d1 d) W")
    case True
    then show ?thesis using p by (simp add: d2_def rmtree_def)
  next
    case False
    with e have "path_exists d D" and "prefix D W"
      by (auto simp: d1_def path_exists_def rmtree_def split: if_splits)
    with p have "prefix D q" by (meson prefix_order.trans)
    then show ?thesis using False \<open>path_exists d D\<close>
      by (simp add: d1_def d2_def rmtree_def)
  qed
qed

text \<open>
  C5. For an unknown identifier \<open>delete_document\<close> fails with 404 and leaves the state
  as it was. For a known one it succeeds; afterwards neither the upload directory nor
  the output directory of the document exists, everything below a directory that existed
  is gone, every other path is as before, the record is removed from the status map, and
  a status query for the identifier fails with 404.
\<close>

theorem delete_document_effect:
  "(processing_status s doc_id = None \<longrightarrow>
      delete_document C s doc_id = (Inl (HTTPException 404 ''Document not found''), s)) \<and>
   (processing_status s doc_id \<noteq> None \<longrightarrow>
      (\<exists>s'. delete_document C s doc_id = (Inr [(''status'', ''deleted'')], s') \<and>
            processing_status s' = (processing_status s)(doc_id := None) \<and>
            \<not> path_exists (files s') (documents_dir C @ [doc_id]) \<and>
            \<not> path_exists (files s') (working_dir C @ [doc_id]) \<and>
            (\<forall>q. path_exists (files s) (documents_dir C @ [doc_id]) \<and>
                 prefix (documents_dir C @ [doc_id]) q \<longrightarrow> files s' q = None) \<and>
            (\<forall>q. path_exists (files s) (working_dir C @ [doc_id]) \<and>
                 prefix (working_dir C @ [doc_id]) q \<longrightarrow> files s' q = None) \<and>
            (\<forall>q. \<not> prefix (documents_dir C @ [doc_id]) q \<and>
                 \<not> prefix (working_dir C @ [doc_id]) q \<longrightarrow> files s' q = files s q) \<and>
            get_document_status s' doc_id = Inl (HTTPException 404 ''Document not found'')))"
proof (intro conjI impI)
  assume "processing_status s doc_id = None"
  then show "delete_document C s doc_id = (Inl (HTTPException 404 ''Document not found''), s)"
    by (rule delete_unknown)
next
  assume k: "processing_status s doc_id \<noteq> None"
  show "\<exists>s'. delete_document C s doc_id = (Inr [(''status'', ''deleted'')], s') \<and>
            processing_status s' = (processing_status s)(doc_id := None) \<and>
            \<not> path_exists (files s') (documents_dir C @ [doc_id]) \<and>
            \<not> path_exists (files s') (working_dir C @ [doc_id]) \<and>
            (\<forall>q. path_exists (files s) (documents_dir C @ [doc_id]) \<and>
                 prefix (documents_dir C @ [doc_id]) q \<longrightarrow> files s' q = None) \<and>
            (\<forall>q. path_exists (files s) (working_dir C @ [doc_id]) \<and>
                 prefix (working_dir C @ [doc_id]) q \<longrightarrow> files s' q = None) \<and>
            (\<forall>q. \<not> prefix (documents_dir C @ [doc_id]) q \<and>
                 \<not> prefix (working_dir C @ [doc_id]) q \<longrightarrow> files s' q = files s q) \<and>
            get_document_status s' doc_id = Inl (HTTPException 404 ''Document not found'')"
    unfolding delete_known [OF k]
    using delete_files [where d = "files s" and D = "documents_dir C @ [doc_id]"
        and W = "working_dir C @ [doc_id]"]
    by (simp add: Let_def get_document_status_def)
qed


text \<open>The theorem at an unknown and at a known identifier of a server tracking one document.\<close>

theorem delete_document_effect_witness:
  "processing_status (tracked ''a.pdf'') ''zz'' = None \<and>
   delete_document demo_config (tracked ''a.pdf'') ''zz'' =
     (Inl (HTTPException 404 ''Document not found''), tracked ''a.pdf'') \<and>
   processing_status (tracked ''a.pdf'') ''d1'' \<noteq> None \<and>
   path_exists (files (tracked ''a.pdf'')) [''data'', ''documents'', ''d1''] \<and>
   fst (delete_document demo_config (tracked ''a.pdf'') ''d1'') = Inr [(''status'', ''deleted'')] \<and>
   files (snd (delete_document demo_config (tracked ''a.pdf'') ''d1''))
     [''data'', ''documents'', ''d1'', ''a.pdf''] = None \<and>
   files (snd (delete_document demo_config (tracked ''a.pdf'') ''d1''))
     [''data'', ''documents''] = Some Dir \<and>
   get_document_status (snd (delete_document demo_config (tracked ''a.pdf'') ''d1'')) ''d1'' =
     Inl (HTTPException 404 ''Document not found'')"
proof -
  have u: "processing_status (tracked ''a.pdf'') ''zz'' = None"
    by (simp add: tracked_def)
  have k: "processing_status (tracked ''a.pdf'') ''d1'' \<noteq> None"
    by (simp add: tracked_def)
  have x: "path_exists (files (tracked ''a.pdf'')) [''data'', ''documents'', ''d1'']"
    by (simp add: tracked_def path_exists_def)
  have dd: "documents_dir demo_config @ [''d1''] = [''data'', ''documents'', ''d1'']"
    and wd: "working_dir demo_config @ [''d1''] = [''data'', ''rag'', ''d1'']"
    by (simp_all add: demo_config_def)
  note a = delete_document_effect [where s = "tracked ''a.pdf''" and doc_id = "''zz''"
      and C = demo_config, THEN conjunct1, THEN mp, OF u]
  from delete_document_effect [where s = "tracked ''a.pdf''" and doc_id = "''d1''"
      and C = demo_config, THEN conjunct2, THEN mp, OF k]
  obtain s' where
    d: "delete_document demo_config (tracked ''a.pdf'') ''d1'' = (Inr [(''status'', ''deleted'')], s')"
    and g: "\<forall>q. path_exists (files (tracked ''a.pdf'')) (documents_dir demo_config @ [''d1'']) \<and>
               prefix (documents_dir demo_config @ [''d1'']) q \<longrightarrow> files s' q = None"
    and f: "\<forall>q. \<not> prefix (documents_dir demo_config @ [''d1'']) q \<and>
               \<not> prefix (working_dir demo_config @ [''d1'']) q \<longrightarrow>
               files s' q = files (tracked ''a.pdf'') q"
    and n: "get_document_status s' ''d1'' = Inl (HTTPException 404 ''Document not found'')"
    by blast
  have g': "files s' [''data'', ''documents'', ''d1'', ''a.pdf''] = None"
    using g [rule_format, of "[''data'', ''documents'', ''d1'', ''a.pdf'']"] x
    by (simp add: dd)
  have "files s' [''data'', ''documents''] = files (tracked ''a.pdf'') [''data'', ''documents'']"
    using f [rule_format, of "[''data'', ''documents'']"] by (simp add: dd wd)
  then have f': "files s' [''data'', ''documents''] = Some Dir"
    by (simp add: tracked_def)
  show ?thesis using u a k x d g' f' n by simp
qed

subsection \<open>Background processing\<close>

lemma assign_field_tracked:
  assumes "processing_status s doc_id = Some r"
  shows "assign_field doc_id upd s =
           (None, s\<lparr>processing_status := (processing_status s)(doc_id \<mapsto> upd r)\<rparr>)"
  using assms by (simp add: assign_field_def)

lemma process_mark_tracked:
  assumes "processing_status s doc_id = Some r"
  shows "process_mark doc_id s =
           (None,
            s\<lparr>processing_status :=
                 (processing_status s)(doc_id \<mapsto> r\<lparr>status := ''processing'', progress := 0.1\<rparr>)\<rparr>)"
  using assms by (simp add: process_mark_def assign_field_def)

lemma process_mkdir_keeps:
  assumes "process_mkdir C doc_id s = (outcome, s1)"
  shows "processing_status s1 = processing_status s" and "rag_instance s1 = rag_instance s"
  using assms by (auto simp: process_mkdir_def split: sum.splits)

lemma process_begin_steps:
  assumes "process_mark doc_id s = (None, sa)"
  shows "process_begin C doc_id s = process_mkdir C doc_id sa"
  using assms by (simp add: process_begin_def split: prod.splits option.splits)


lemma process_ingest_keeps_status:
  assumes "process_ingest C doc_id file_path s = (outcome, s2)"
  shows "processing_status s2 = processing_status s"
  using assms by (auto simp: process_ingest_def split: option.splits prod.splits)

lemma process_document_returned:
  assumes "process_begin C doc_id s = (None, s1)"
    and "process_ingest C doc_id file_path s1 = (None, s2)"
    and "processing_status s2 doc_id = Some r1"
  shows "process_document C doc_id file_path s =
           (None,
            s2\<lparr>processing_status :=
                  (processing_status s2)(doc_id \<mapsto> r1\<lparr>status := ''completed'', progress := 1\<rparr>)\<rparr>)"
  using assms
  by (simp add: process_document_def try_except_def process_end_def assign_field_def)

lemma process_document_raised:
  assumes "process_begin C doc_id s = (None, s1)"
    and "process_ingest C doc_id file_path s1 = (Some (Exception e), s2)"
    and "processing_status s2 doc_id = Some r1"
  shows "process_document C doc_id file_path s =
           (None,
            s2\<lparr>processing_status :=
                  (processing_status s2)(doc_id \<mapsto>
                     r1\<lparr>status := ''failed'', error := Some (exn_text e)\<rparr>)\<rparr>)"
  using assms
  by (simp add: process_document_def try_except_def process_failed_def assign_field_def)

lemma process_document_not_handled:
  assumes "process_begin C doc_id s = (None, s1)"
    and "process_ingest C doc_id file_path s1 = (Some (BaseException b), s2)"
  shows "process_document C doc_id file_path s = (Some (BaseException b), s2)"
  using assms
  by (simp add: process_document_def try_except_def)

lemma process_ingest_rag:
  assumes "rag_instance s = Some rag"
  shows "process_ingest C doc_id file_path s =
           (fst (process_document_complete rag file_path (working_dir C @ [doc_id]) (files s)),
            s\<lparr>files :=
                 snd (process_document_complete rag file_path (working_dir C @ [doc_id]) (files s))\<rparr>)"
  using assms by (simp add: process_ingest_def split: prod.splits)

text \<open>On the disk of the sample server the output directory of \<^verbatim>\<open>d1\<close> can be made.\<close>

lemma tracked_begin:
  "fst (process_begin demo_config ''d1'' (tracked name)) = None"
  by (simp add: process_begin_def process_mark_def process_mkdir_def assign_field_def
      tracked_def demo_config_def mkdir_parents_def is_file_def)

text \<open>
  C3, as amended. For a tracked document, the first two statements of
  \<open>process_document\<close> set the status to \<^verbatim>\<open>processing\<close> (and the progress to 0.1). Once
  the output directory is made: if the awaited ingestion call returns, the record ends
  with status \<^verbatim>\<open>completed\<close> and progress 1.0; if it raises an exception derived from
  \<^verbatim>\<open>Exception\<close>, the record ends with status \<^verbatim>\<open>failed\<close> and its error field set to
  the text of the exception, whatever that text is; and if it raises anything else
  (\<^verbatim>\<open>asyncio.CancelledError\<close>, \<^verbatim>\<open>KeyboardInterrupt\<close>), the task is left by that raise
  and the record stays at \<^verbatim>\<open>processing\<close> with progress 0.1.
\<close>

theorem process_document_transitions:
  assumes "processing_status s doc_id = Some r"
  shows "\<exists>sa. process_mark doc_id s = (None, sa) \<and>
           processing_status sa doc_id = Some (r\<lparr>status := ''processing'', progress := 0.1\<rparr>) \<and>
           (\<forall>s1. process_mkdir C doc_id sa = (None, s1) \<longrightarrow>
              process_begin C doc_id s = (None, s1) \<and>
              (\<forall>s2. process_ingest C doc_id file_path s1 = (None, s2) \<longrightarrow>
                 (\<exists>s3. process_document C doc_id file_path s = (None, s3) \<and>
                    processing_status s3 doc_id =
                      Some (r\<lparr>status := ''completed'', progress := 1\<rparr>))) \<and>
              (\<forall>e s2. process_ingest C doc_id file_path s1 = (Some (Exception e), s2) \<longrightarrow>
                 (\<exists>s3. process_document C doc_id file_path s = (None, s3) \<and>
                    processing_status s3 doc_id =
                      Some (r\<lparr>status := ''failed'', progress := 0.1,
                              error := Some (exn_text e)\<rparr>))) \<and>
              (\<forall>b s2. process_ingest C doc_id file_path s1 = (Some (BaseException b), s2) \<longrightarrow>
                 process_document C doc_id file_path s = (Some (BaseException b), s2) \<and>
                 processing_status s2 doc_id =
                   Some (r\<lparr>status := ''processing'', progress := 0.1\<rparr>)))"
proof -
  let ?r1 = "r\<lparr>status := ''processing'', progress := 0.1\<rparr>"
  let ?sa = "s\<lparr>processing_status := (processing_status s)(doc_id \<mapsto> ?r1)\<rparr>"
  have m: "process_mark doc_id s = (None, ?sa)"
    by (rule process_mark_tracked [OF assms])
  have t: "processing_status ?sa doc_id = Some ?r1" by simp
  have rest: "process_begin C doc_id s = (None, s1) \<and>
      (\<forall>s2. process_ingest C doc_id file_path s1 = (None, s2) \<longrightarrow>
         (\<exists>s3. process_document C doc_id file_path s = (None, s3) \<and>
            processing_status s3 doc_id = Some (r\<lparr>status := ''completed'', progress := 1\<rparr>))) \<and>
      (\<forall>e s2. process_ingest C doc_id file_path s1 = (Some (Exception e), s2) \<longrightarrow>
         (\<exists>s3. process_document C doc_id file_path s = (None, s3) \<and>
            processing_status s3 doc_id =
              Some (r\<lparr>status := ''failed'', progress := 0.1, error := Some (exn_text e)\<rparr>))) \<and>
      (\<forall>b s2. process_ingest C doc_id file_path s1 = (Some (BaseException b), s2) \<longrightarrow>
         process_document C doc_id file_path s = (Some (BaseException b), s2) \<and>
         processing_status s2 doc_id = Some ?r1)"
    if k: "process_mkdir C doc_id ?sa = (None, s1)" for s1
  proof -
    from process_begin_steps [OF m, of C] k
    have b: "process_begin C doc_id s = (None, s1)" by simp
    from process_mkdir_keeps(1) [OF k] t
    have t1: "processing_status s1 doc_id = Some ?r1" by simp
    have ok: "\<exists>s3. process_document C doc_id file_path s = (None, s3) \<and>
                processing_status s3 doc_id = Some (r\<lparr>status := ''completed'', progress := 1\<rparr>)"
      if i: "process_ingest C doc_id file_path s1 = (None, s2)" for s2
    proof -
      from process_ingest_keeps_status [OF i] t1
      have "processing_status s2 doc_id = Some ?r1" by simp
      from process_document_returned [OF b i this] show ?thesis by simp
    qed
    have bad: "\<exists>s3. process_document C doc_id file_path s = (None, s3) \<and>
                processing_status s3 doc_id =
                  Some (r\<lparr>status := ''failed'', progress := 0.1, error := Some (exn_text e)\<rparr>)"
      if i: "process_ingest C doc_id file_path s1 = (Some (Exception e), s2)" for e s2
    proof -
      from process_ingest_keeps_status [OF i] t1
      have "processing_status s2 doc_id = Some ?r1" by simp
      from process_document_raised [OF b i this] show ?thesis by simp
    qed
    have esc: "process_document C doc_id file_path s = (Some (BaseException x), s2) \<and>
               processing_status s2 doc_id = Some ?r1"
      if i: "process_ingest C doc_id file_path s1 = (Some (BaseException x), s2)" for x s2
      using process_document_not_handled [OF b i] process_ingest_keeps_status [OF i] t1
      by simp
    from b ok bad esc show ?thesis by blast
  qed
  from m t rest show ?thesis by blast
qed

text \<open>
  The theorem at a document whose ingestion returns, at one whose ingestion raises, and
  at one whose ingestion is cancelled.
\<close>

theorem process_document_transitions_witness:
  "processing_status (tracked ''a.pdf'') ''d1'' = Some (demo_record ''a.pdf'') \<and>
   processing_status (snd (process_mark ''d1'' (tracked ''a.pdf''))) ''d1'' =
     Some (demo_record ''a.pdf''\<lparr>status := ''processing'', progress := 0.1\<rparr>) \<and>
   fst (process_mkdir demo_config ''d1'' (snd (process_mark ''d1'' (tracked ''a.pdf'')))) = None \<and>
   process_document demo_config ''d1'' [''data'', ''documents'', ''d1'', ''a.pdf'']
     (tracked ''a.pdf'') =
     (None,
      snd (process_document demo_config ''d1'' [''data'', ''documents'', ''d1'', ''a.pdf'']
        (tracked ''a.pdf''))) \<and>
   processing_status
     (snd (process_document demo_config ''d1'' [''data'', ''documents'', ''d1'', ''a.pdf'']
        (tracked ''a.pdf''))) ''d1'' =
     Some (demo_record ''a.pdf''\<lparr>status := ''completed'', progress := 1\<rparr>) \<and>
   processing_status
     (snd (process_document demo_config ''d1'' [''data'', ''documents'', ''d1'', ''bad.pdf'']
        (tracked ''bad.pdf''))) ''d1'' =
     Some (demo_record ''bad.pdf''\<lparr>status := ''failed'', progress := 0.1,
             error := Some ''cannot parse''\<rparr>) \<and>
   fst (process_document demo_config ''d1'' [''data'', ''documents'', ''d1'', ''stop.pdf'']
          (tracked ''stop.pdf'')) = Some (BaseException ''CancelledError'') \<and>
   processing_status
     (snd (process_document demo_config ''d1'' [''data'', ''documents'', ''d1'', ''stop.pdf'']
        (tracked ''stop.pdf''))) ''d1'' =
     Some (demo_record ''stop.pdf''\<lparr>status := ''processing'', progress := 0.1\<rparr>)"
proof -
  have run: "\<exists>sa s1 s2.
      process_mark ''d1'' (tracked name) = (None, sa) \<and>
      processing_status sa ''d1'' =
        Some (demo_record name\<lparr>status := ''processing'', progress := 0.1\<rparr>) \<and>
      process_mkdir demo_config ''d1'' sa = (None, s1) \<and>
      process_ingest demo_config ''d1'' file_path s1 =
        (fst (process_document_complete demo_rag file_path [''data'', ''rag'', ''d1''] (files s1)),
         s2) \<and>
      (\<forall>s2. process_ingest demo_config ''d1'' file_path s1 = (None, s2) \<longrightarrow>
         (\<exists>s3. process_document demo_config ''d1'' file_path (tracked name) = (None, s3) \<and>
            processing_status s3 ''d1'' =
              Some (demo_record name\<lparr>status := ''completed'', progress := 1\<rparr>))) \<and>
      (\<forall>e s2. process_ingest demo_config ''d1'' file_path s1 = (Some (Exception e), s2) \<longrightarrow>
         (\<exists>s3. process_document demo_config ''d1'' file_path (tracked name) = (None, s3) \<and>
            processing_status s3 ''d1'' =
              Some (demo_record name\<lparr>status := ''failed'', progress := 0.1,
                      error := Some (exn_text e)\<rparr>))) \<and>
      (\<forall>b s2. process_ingest demo_config ''d1'' file_path s1 = (Some (BaseException b), s2) \<longrightarrow>
         process_document demo_config ''d1'' file_path (tracked name) =
           (Some (BaseException b), s2) \<and>
         processing_status s2 ''d1'' =
           Some (demo_record name\<lparr>status := ''processing'', progress := 0.1\<rparr>))"
    for name file_path
  proof -
    have t: "processing_status (tracked name) ''d1'' = Some (demo_record name)"
      by (simp add: tracked_def)
    from process_document_transitions [OF t, of demo_config file_path] obtain sa where
      m: "process_mark ''d1'' (tracked name) = (None, sa)"
      and p: "processing_status sa ''d1'' =
                Some (demo_record name\<lparr>status := ''processing'', progress := 0.1\<rparr>)"
      and all: "\<forall>s1. process_mkdir demo_config ''d1'' sa = (None, s1) \<longrightarrow>
        process_begin demo_config ''d1'' (tracked name) = (None, s1) \<and>
        (\<forall>s2. process_ingest demo_config ''d1'' file_path s1 = (None, s2) \<longrightarrow>
           (\<exists>s3. process_document demo_config ''d1'' file_path (tracked name) = (None, s3) \<and>
              processing_status s3 ''d1'' =
                Some (demo_record name\<lparr>status := ''completed'', progress := 1\<rparr>))) \<and>
        (\<forall>e s2. process_ingest demo_config ''d1'' file_path s1 = (Some (Exception e), s2) \<longrightarrow>
           (\<exists>s3. process_document demo_config ''d1'' file_path (tracked name) = (None, s3) \<and>
              processing_status s3 ''d1'' =
                Some (demo_record name\<lparr>status := ''failed'', progress := 0.1,
                        error := Some (exn_text e)\<rparr>))) \<and>
        (\<forall>b s2. process_ingest demo_config ''d1'' file_path s1 = (Some (BaseException b), s2) \<longrightarrow>
           process_document demo_config ''d1'' file_path (tracked name) =
             (Some (BaseException b), s2) \<and>
           processing_status s2 ''d1'' =
             Some (demo_record name\<lparr>status := ''processing'', progress := 0.1\<rparr>))"
      by blast
    from process_begin_steps [OF m, of demo_config] tracked_begin [of name]
    have "fst (process_mkdir demo_config ''d1'' sa) = None" by simp
    then obtain s1 where k: "process_mkdir demo_config ''d1'' sa = (None, s1)"
      by (metis prod.collapse)
    from m have "rag_instance sa = Some demo_rag"
      by (auto simp: process_mark_def assign_field_def tracked_def split: option.splits)
    with process_mkdir_keeps(2) [OF k] have "rag_instance s1 = Some demo_rag" by simp
    from process_ingest_rag [OF this, of demo_config "''d1''" file_path]
    have "\<exists>s2. process_ingest demo_config ''d1'' file_path s1 =
        (fst (process_document_complete demo_rag file_path [''data'', ''rag'', ''d1''] (files s1)),
         s2)"
      by (simp add: demo_config_def)
    with m p k all show ?thesis by blast
  qed
  let ?pa = "[''data'', ''documents'', ''d1'', ''a.pdf'']"
  let ?pb = "[''data'', ''documents'', ''d1'', ''bad.pdf'']"
  let ?pc = "[''data'', ''documents'', ''d1'', ''stop.pdf'']"
  have ta: "processing_status (tracked ''a.pdf'') ''d1'' = Some (demo_record ''a.pdf'')"
    by (simp add: tracked_def)
  have wa: "processing_status (snd (process_mark ''d1'' (tracked ''a.pdf''))) ''d1'' =
      Some (demo_record ''a.pdf''\<lparr>status := ''processing'', progress := 0.1\<rparr>) \<and>
    fst (process_mkdir demo_config ''d1'' (snd (process_mark ''d1'' (tracked ''a.pdf'')))) = None \<and>
    process_document demo_config ''d1'' ?pa (tracked ''a.pdf'') =
      (None, snd (process_document demo_config ''d1'' ?pa (tracked ''a.pdf''))) \<and>
    processing_status (snd (process_document demo_config ''d1'' ?pa (tracked ''a.pdf''))) ''d1'' =
      Some (demo_record ''a.pdf''\<lparr>status := ''completed'', progress := 1\<rparr>)"
    using run [of "''a.pdf''" ?pa] by (auto simp: demo_rag_def)
  have wb: "processing_status
      (snd (process_document demo_config ''d1'' ?pb (tracked ''bad.pdf''))) ''d1'' =
      Some (demo_record ''bad.pdf''\<lparr>status := ''failed'', progress := 0.1,
              error := Some ''cannot parse''\<rparr>)"
    using run [of "''bad.pdf''" ?pb] by (auto simp: demo_rag_def)
  have wc: "fst (process_document demo_config ''d1'' ?pc (tracked ''stop.pdf'')) =
      Some (BaseException ''CancelledError'') \<and>
    processing_status
      (snd (process_document demo_config ''d1'' ?pc (tracked ''stop.pdf''))) ''d1'' =
      Some (demo_record ''stop.pdf''\<lparr>status := ''processing'', progress := 0.1\<rparr>)"
    using run [of "''stop.pdf''" ?pc] by (auto simp: demo_rag_def)
  from ta wa wb wc show ?thesis by simp
qed

text \<open>
  C3 as stated fails, twice. When the ingestion routine raises an exception that has no
  message, the record ends with status \<^verbatim>\<open>failed\<close> and the empty string as its error:
  the error field is not always non-empty. When the awaited call is cancelled, what is
  raised is not derived from \<^verbatim>\<open>Exception\<close>, the handler does not run, and the record
  ends with status \<^verbatim>\<open>processing\<close>, not \<^verbatim>\<open>failed\<close>.
\<close>

theorem process_document_empty_error:
  "processing_status (tracked ''slow.pdf'') ''d1'' = Some (demo_record ''slow.pdf'') \<and>
   fst (process_document_complete demo_rag [''data'', ''documents'', ''d1'', ''slow.pdf'']
          [''data'', ''rag'', ''d1''] (files (tracked ''slow.pdf''))) =
     Some (Exception (Exn OtherException [])) \<and>
   map_option error
     (processing_status
        (snd (process_document demo_config ''d1'' [''data'', ''documents'', ''d1'', ''slow.pdf'']
           (tracked ''slow.pdf''))) ''d1'') = Some (Some []) \<and>
   map_option status
     (processing_status
        (snd (process_document demo_config ''d1'' [''data'', ''documents'', ''d1'', ''slow.pdf'']
           (tracked ''slow.pdf''))) ''d1'') = Some ''failed'' \<and>
   processing_status (tracked ''stop.pdf'') ''d1'' = Some (demo_record ''stop.pdf'') \<and>
   fst (process_document_complete demo_rag [''data'', ''documents'', ''d1'', ''stop.pdf'']
          [''data'', ''rag'', ''d1''] (files (tracked ''stop.pdf''))) =
     Some (BaseException ''CancelledError'') \<and>
   map_option status
     (processing_status
        (snd (process_document demo_config ''d1'' [''data'', ''documents'', ''d1'', ''stop.pdf'']
           (tracked ''stop.pdf''))) ''d1'') = Some ''processing'' \<and>
   map_option error
     (processing_status
        (snd (process_document demo_config ''d1'' [''data'', ''documents'', ''d1'', ''stop.pdf'']
           (tracked ''stop.pdf''))) ''d1'') = Some None"
  by (simp add: process_document_def try_except_def process_begin_def process_mark_def
      process_mkdir_def process_ingest_def process_end_def process_failed_def assign_field_def
      tracked_def demo_rag_def demo_config_def demo_record_def mkdir_parents_def is_file_def)



subsection \<open>Batched embedding requests\<close>

lemma chunks_of_Nil: "chunks_of n [] = []"
  by (simp add: chunks_of.simps)

lemma chunks_of_step:
  assumes "0 < n" and "xs \<noteq> []"
  shows "chunks_of n xs = take n xs # chunks_of n (drop n xs)"
  using assms by (subst chunks_of.simps) simp

lemma concat_chunks_of:
  assumes "0 < n"
  shows "concat (chunks_of n xs) = xs"
  using assms
proof (induction n xs rule: chunks_of.induct)
  case (1 n xs)
  show ?case
  proof (cases "xs = []")
    case True
    then show ?thesis by (simp add: chunks_of_Nil)
  next
    case False
    with 1 show ?thesis by (simp add: chunks_of_step)
  qed
qed

lemma chunks_of_lengths:
  assumes "c \<in> set (chunks_of n xs)"
  shows "0 < length c \<and> length c \<le> n"
  using assms
proof (induction n xs rule: chunks_of.induct)
  case (1 n xs)
  show ?case
  proof (cases "n = 0 \<or> xs = []")
    case True
    with 1 show ?thesis by (simp add: chunks_of.simps)
  next
    case False
    then have "chunks_of n xs = take n xs # chunks_of n (drop n xs)"
      by (simp add: chunks_of_step)
    with 1 False show ?thesis by auto
  qed
qed

lemma chunks_of_butlast:
  assumes "c \<in> set (butlast (chunks_of n xs))"
  shows "length c = n"
  using assms
proof (induction n xs rule: chunks_of.induct)
  case (1 n xs)
  show ?case
  proof (cases "n = 0 \<or> xs = []")
    case True
    with 1 show ?thesis by (simp add: chunks_of.simps)
  next
    case False
    then have s: "chunks_of n xs = take n xs # chunks_of n (drop n xs)"
      by (simp add: chunks_of_step)
    show ?thesis
    proof (cases "chunks_of n (drop n xs) = []")
      case True
      with 1 s show ?thesis by simp
    next
      case ne: False
      then have "drop n xs \<noteq> []" by (auto simp: chunks_of_Nil)
      then have "length (take n xs) = n" by simp
      with 1 s ne False show ?thesis by auto
    qed
  qed
qed

lemma embedding_loop_sends_chunks:
  assumes "\<forall>c\<in>set (chunks_of batch_size (drop i texts)). \<not> isl (create c)"
  shows "embedding_loop create texts i embs sent =
           (Inr (embs @ concat (map (\<lambda>c. projr (create c))
                                 (chunks_of batch_size (drop i texts)))),
            sent @ chunks_of batch_size (drop i texts))"
  using assms
proof (induction create texts i embs sent rule: embedding_loop.induct)
  case (1 create texts i embs sent)
  show ?case
  proof (cases "i < length texts")
    case False
    then show ?thesis by (simp add: embedding_loop.simps chunks_of_Nil)
  next
    case True
    let ?batch = "take batch_size (drop i texts)"
    have s: "chunks_of batch_size (drop i texts) =
               ?batch # chunks_of batch_size (drop (i + batch_size) texts)"
      using True by (simp add: chunks_of_step batch_size_def add.commute)
    with "1.prems" have "\<not> isl (create ?batch)" by simp
    then obtain data where d: "create ?batch = Inr data"
      by (cases "create ?batch") simp_all
    from "1.prems" s
    have "\<forall>c\<in>set (chunks_of batch_size (drop (i + batch_size) texts)). \<not> isl (create c)"
      by simp
    from "1.IH" [OF True refl d this] s d True show ?thesis
      by (subst embedding_loop.simps) simp
  qed
qed

lemma embedding_loop_sent_prefix:
  "\<exists>ys. snd (embedding_loop create texts i embs sent) = sent @ ys \<and>
        prefix ys (chunks_of batch_size (drop i texts))"
proof (induction create texts i embs sent rule: embedding_loop.induct)
  case (1 create texts i embs sent)
  show ?case
  proof (cases "i < length texts")
    case False
    then show ?thesis by (simp add: embedding_loop.simps)
  next
    case True
    let ?batch = "take batch_size (drop i texts)"
    have s: "chunks_of batch_size (drop i texts) =
               ?batch # chunks_of batch_size (drop (i + batch_size) texts)"
      using True by (simp add: chunks_of_step batch_size_def add.commute)
    show ?thesis
    proof (cases "create ?batch")
      case (Inl e)
      with True have "snd (embedding_loop create texts i embs sent) = sent @ [?batch]"
        by (subst embedding_loop.simps) simp
      with s show ?thesis by simp
    next
      case (Inr data)
      from "1.IH" [OF True refl Inr] obtain ys where
        y: "snd (embedding_loop create texts (i + batch_size) (embs @ data) (sent @ [?batch])) =
              (sent @ [?batch]) @ ys"
        and p: "prefix ys (chunks_of batch_size (drop (i + batch_size) texts))"
        by blast
      from Inr True y
      have "snd (embedding_loop create texts i embs sent) = sent @ (?batch # ys)"
        by (subst embedding_loop.simps) simp
      with p s show ?thesis by auto
    qed
  qed
qed

lemma concat_nth_chunks:
  assumes "0 < n"
    and "list_all2 (\<lambda>c d. length d = length c) (chunks_of n xs) ds"
    and "k < length xs"
  shows "concat ds ! k = ds ! (k div n) ! (k mod n)"
  using assms
proof (induction n xs arbitrary: ds k rule: chunks_of.induct)
  case (1 n xs)
  from "1.prems" have ne: "xs \<noteq> []" by auto
  with "1.prems" have s: "chunks_of n xs = take n xs # chunks_of n (drop n xs)"
    by (simp add: chunks_of_step)
  with "1.prems"(2) obtain d ds' where
    ds: "ds = d # ds'" and ld: "length d = length (take n xs)"
    and rest: "list_all2 (\<lambda>c d. length d = length c) (chunks_of n (drop n xs)) ds'"
    by (auto simp: list_all2_Cons1)
  show ?case
  proof (cases "k < n")
    case True
    with "1.prems"(3) ld have "k < length d" by simp
    with True ds show ?thesis by (simp add: nth_append)
  next
    case False
    then have kn: "n \<le> k" by simp
    with "1.prems"(3) ld have l: "length d = n" by simp
    from kn "1.prems"(3) have "k - n < length (drop n xs)" by simp
    from "1.IH" [OF _ "1.prems"(1) rest this] "1.prems"(1) ne
    have "concat ds' ! (k - n) = ds' ! ((k - n) div n) ! ((k - n) mod n)" by simp
    moreover have "k div n = Suc ((k - n) div n)"
      using kn "1.prems"(1) by (simp add: le_div_geq)
    moreover have "k mod n = (k - n) mod n"
      using kn by (simp add: le_mod_geq)
    ultimately show ?thesis using ds l kn by (simp add: nth_append)
  qed
qed

lemma length_concat_bound:
  assumes "\<forall>c\<in>set xss. length c \<le> n"
  shows "length (concat xss) \<le> length xss * n"
  using assms by (induction xss) auto

text \<open>
  C7. The consecutive chunks of 32 of the input texts concatenate to the input, each
  holds between 1 and 32 texts, and all but the last hold exactly 32. The requests that
  \<open>embedding_func\<close> sends are these chunks, one each and in order, up to the first that
  raises; when none raises it sends them all and returns the concatenation of the
  responses in that order. When moreover every response holds one embedding per text
  of its chunk, the result holds exactly as many embeddings as there are texts, the
  embedding at position \<open>k\<close> being the one at position \<open>k mod 32\<close> of the response
  to chunk \<open>k div 32\<close>.
\<close>

theorem embedding_func_chunks:
  "concat (chunks_of 32 texts) = texts \<and>
   (\<forall>c\<in>set (chunks_of 32 texts). 0 < length c \<and> length c \<le> 32) \<and>
   (\<forall>c\<in>set (butlast (chunks_of 32 texts)). length c = 32) \<and>
   prefix (snd (embedding_func C create texts)) (chunks_of 32 texts) \<and>
   ((\<forall>c\<in>set (chunks_of 32 texts). \<not> isl (create (embedding_model C) c)) \<longrightarrow>
      embedding_func C create texts =
        (Inr (concat (map (\<lambda>c. projr (create (embedding_model C) c)) (chunks_of 32 texts))),
         chunks_of 32 texts)) \<and>
   ((\<forall>c\<in>set (chunks_of 32 texts).
        \<exists>data. create (embedding_model C) c = Inr data \<and> length data = length c) \<longrightarrow>
      (\<exists>embs. fst (embedding_func C create texts) = Inr embs \<and>
         length embs = length texts \<and>
         (\<forall>k<length texts.
            embs ! k =
              projr (create (embedding_model C) (chunks_of 32 texts ! (k div 32))) ! (k mod 32))))"
proof -
  let ?cs = "chunks_of 32 texts"
  let ?f = "\<lambda>c. projr (create (embedding_model C) c)"
  have a: "concat ?cs = texts" by (simp add: concat_chunks_of)
  have b: "\<forall>c\<in>set ?cs. 0 < length c \<and> length c \<le> 32"
    using chunks_of_lengths by blast
  have c: "\<forall>c\<in>set (butlast ?cs). length c = 32"
    using chunks_of_butlast by blast
  have d: "prefix (snd (embedding_func C create texts)) ?cs"
    using embedding_loop_sent_prefix [of "create (embedding_model C)" texts 0 "[]" "[]"]
    by (auto simp: embedding_func_def batch_size_def)
  have e: "embedding_func C create texts = (Inr (concat (map ?f ?cs)), ?cs)"
    if "\<forall>c\<in>set ?cs. \<not> isl (create (embedding_model C) c)"
    using embedding_loop_sends_chunks [of 0 texts "create (embedding_model C)" "[]" "[]"] that
    by (simp add: embedding_func_def batch_size_def)
  have f: "\<exists>embs. fst (embedding_func C create texts) = Inr embs \<and>
             length embs = length texts \<and>
             (\<forall>k<length texts. embs ! k = ?f (?cs ! (k div 32)) ! (k mod 32))"
    if h: "\<forall>c\<in>set ?cs. \<exists>data. create (embedding_model C) c = Inr data \<and> length data = length c"
  proof -
    from h have ok: "\<forall>c\<in>set ?cs. \<not> isl (create (embedding_model C) c)" by auto
    from h have len: "\<forall>c\<in>set ?cs. length (?f c) = length c" by auto
    then have l2: "list_all2 (\<lambda>c d. length d = length c) ?cs (map ?f ?cs)"
      by (simp add: list_all2_conv_all_nth)
    have "length (concat (map ?f ?cs)) = length (concat ?cs)"
      using len by (simp add: length_concat comp_def cong: map_cong)
    with a have n: "length (concat (map ?f ?cs)) = length texts" by simp
    have i: "concat (map ?f ?cs) ! k = ?f (?cs ! (k div 32)) ! (k mod 32)"
      if k: "k < length texts" for k
    proof -
      have "k div 32 < length ?cs"
      proof (rule ccontr)
        assume "\<not> k div 32 < length ?cs"
        then have "length ?cs * 32 \<le> k" 
          by presburger
        moreover have "length (concat ?cs) \<le> length ?cs * 32"
          using b by (simp add: length_concat_bound)
        ultimately show False using a k by simp
      qed
      with concat_nth_chunks [OF _ l2 k] show ?thesis by simp
    qed
    from e [OF ok] n i show ?thesis by simp
  qed
  from a b c d e f show ?thesis by blast
qed

text \<open>The theorem at 33 texts: a chunk of 32 and a chunk of one.\<close>

theorem embedding_func_chunks_witness:
  "chunks_of 32 demo_texts = [replicate 32 ''a'', [''bc'']] \<and>
   embedding_func demo_config demo_create demo_texts =
     (Inr (replicate 32 [1] @ [[2]]), [replicate 32 ''a'', [''bc'']]) \<and>
   length (replicate 32 [1::real] @ [[2]]) = length demo_texts"
proof -
  have cs: "chunks_of 32 demo_texts = [replicate 32 ''a'', [''bc'']]"
    by (simp add: demo_texts_def chunks_of_step chunks_of_Nil)
  have h: "\<forall>c\<in>set (chunks_of 32 demo_texts).
             \<not> isl (demo_create (embedding_model demo_config) c)"
    by (simp add: demo_create_def)
  from embedding_func_chunks [of demo_texts demo_config demo_create] h
  have "embedding_func demo_config demo_create demo_texts =
          (Inr (concat (map (\<lambda>c. projr (demo_create (embedding_model demo_config) c))
                         (chunks_of 32 demo_texts))),
           chunks_of 32 demo_texts)"
    by blast
  moreover have "length demo_texts = 33"
    by (simp add: demo_texts_def)
  ultimately show ?thesis
    by (simp add: cs demo_create_def)
qed

end
